theory Spec2Isabelle
  imports Complex_Main "HOL-Library.Word"
begin

section \<open>The ASCII art generator of \<open>src/acii.js\<close>\<close>

text \<open>
  The class \<open>ASCIIArtGenerator\<close> turns the RGBA samples of a canvas into text. The
  embedding follows the source function by function.

  \<^item> A \<open>Uint8ClampedArray\<close> is a list of bytes (\<open>8 word\<close>). A store of a number into
    it goes through \<open>toUint8Clamp\<close> (clamp to 0..255, round half to even); a store
    beyond its end is ignored, which is what \<open>xs[i := v]\<close> does.
  \<^item> A JavaScript number is an exact real. \<open>NaN\<close> and the infinities are outside of
    the model, and so is the rounding of double arithmetic.
  \<^item> The canvas (decoding, \<open>drawImage\<close>, \<open>getImageData\<close>) is an external
    collaborator: the functions below start from the sampled pixel data, whose length
    is \<open>4 * width * height\<close>. Every read of the loops stays below that length, and the
    theorems about pixel data assume it.
\<close>

subsection \<open>Numbers and typed arrays\<close>

type_synonym byte = "8 word"
type_synonym buffer = "byte list"

definition toUint8Clamp :: "real \<Rightarrow> byte" where
  "toUint8Clamp v =
     (if v \<le> 0 then 0
      else if 255 \<le> v then 255
      else (let f = \<lfloor>v\<rfloor> in
            if of_int f + 1 / 2 < v then word_of_int (f + 1)
            else if v < of_int f + 1 / 2 then word_of_int f
            else if even f then word_of_int f
            else word_of_int (f + 1)))"

definition num :: "byte \<Rightarrow> real" where
  "num b = real (unat b)"

definition Math_round :: "real \<Rightarrow> int" where
  "Math_round v = \<lfloor>v + 1 / 2\<rfloor>"

definition Math_floor :: "real \<Rightarrow> int" where
  "Math_floor v = \<lfloor>v\<rfloor>"

subsection \<open>The constructor\<close>

text \<open>
  The options object: a property that is absent reads as \<open>undefined\<close>, which is
  \<open>None\<close> here. \<open>a || b\<close> is \<open>b\<close> when \<open>a\<close> is falsy: \<open>undefined\<close>, the empty
  string, the number 0 or \<open>false\<close>.
\<close>

record options =
  opt_charSet :: "string option"
  opt_width :: "int option"
  opt_invertBrightness :: "bool option"
  opt_colorMode :: "bool option"
  opt_contrastFactor :: "real option"
  opt_brightnessFactor :: "real option"
  opt_useDetailedCharSet :: "bool option"
  opt_applyDithering :: "bool option"
  opt_applySharpening :: "bool option"
  opt_ditherAmount :: "real option"

record generator =
  charSet :: string
  detailedCharSet :: string
  width :: int
  invertBrightness :: bool
  colorMode :: bool
  contrastFactor :: real
  brightnessFactor :: real
  useDetailedCharSet :: bool
  applyDithering :: bool
  applySharpening :: bool
  ditherAmount :: real

definition or_string :: "string option \<Rightarrow> string \<Rightarrow> string" where
  "or_string a b = (case a of None \<Rightarrow> b | Some s \<Rightarrow> if s = [] then b else s)"

definition or_int :: "int option \<Rightarrow> int \<Rightarrow> int" where
  "or_int a b = (case a of None \<Rightarrow> b | Some n \<Rightarrow> if n = 0 then b else n)"

definition or_real :: "real option \<Rightarrow> real \<Rightarrow> real" where
  "or_real a b = (case a of None \<Rightarrow> b | Some v \<Rightarrow> if v = 0 then b else v)"

definition or_bool :: "bool option \<Rightarrow> bool \<Rightarrow> bool" where
  "or_bool a b = (case a of None \<Rightarrow> b | Some v \<Rightarrow> if v then True else b)"

definition default_charSet :: string where
  "default_charSet = ''@%#*+=-:. ''"

definition detailed_charSet :: string where
  "detailed_charSet =
     ''$@B%8&WM#*oahkbdpqwmZO0QLCJUYXzcvunxrjft/'' @ [CHR 0x5C] @
     ''|()1{}[]?-_+~<>i!lI;:,'' @ [CHR 0x22] @ ''^`'' @ [CHR 0x27] @ ''. ''"

definition constructor :: "options \<Rightarrow> generator" where
  "constructor opts =
     \<lparr> charSet = or_string (opt_charSet opts) default_charSet,
       detailedCharSet = detailed_charSet,
       width = or_int (opt_width opts) 100,
       invertBrightness = or_bool (opt_invertBrightness opts) False,
       colorMode = or_bool (opt_colorMode opts) False,
       contrastFactor = or_real (opt_contrastFactor opts) 1,
       brightnessFactor = or_real (opt_brightnessFactor opts) 0,
       useDetailedCharSet = or_bool (opt_useDetailedCharSet opts) False,
       applyDithering = or_bool (opt_applyDithering opts) False,
       applySharpening = or_bool (opt_applySharpening opts) False,
       ditherAmount = or_real (opt_ditherAmount opts) (1 / 2) \<rparr>"

subsection \<open>Contrast and brightness\<close>

definition applyContrastAndBrightness :: "generator \<Rightarrow> real \<Rightarrow> real" where
  "applyContrastAndBrightness this v =
     (let adjusted = (v - 128) * contrastFactor this + 128;
          adjusted = adjusted + brightnessFactor this * 255
      in max 0 (min 255 adjusted))"

subsection \<open>Floyd-Steinberg dithering\<close>

text \<open>
  \<open>addError\<close> writes three channels of the pixel at \<open>idx\<close>, one after the other.
  It does not look at the alpha channel of that pixel.
\<close>

definition addError :: "buffer \<Rightarrow> nat \<Rightarrow> real \<Rightarrow> real \<Rightarrow> real \<Rightarrow> real \<Rightarrow> buffer" where
  "addError data idx errR errG errB factor =
     (let data = data[idx := toUint8Clamp (max 0 (min 255 (num (data ! idx) + errR * factor)))];
          data = data[idx + 1 :=
                   toUint8Clamp (max 0 (min 255 (num (data ! (idx + 1)) + errG * factor)))];
          data = data[idx + 2 :=
                   toUint8Clamp (max 0 (min 255 (num (data ! (idx + 2)) + errB * factor)))]
      in data)"

definition grayLevel :: "byte \<Rightarrow> byte \<Rightarrow> byte \<Rightarrow> int" where
  "grayLevel oldR oldG oldB = Math_round ((num oldR + num oldG + num oldB) / 3 / 32) * 32"

text \<open>
  The body of the two loops at the pixel in column \<open>x\<close> of row \<open>y\<close>. The south-west
  neighbour is at \<open>idx - 4 + w * 4\<close>, written only when \<open>x > 0\<close>, where \<open>idx\<close> is at
  least 4.
\<close>

definition dither_pixel :: "real \<Rightarrow> nat \<Rightarrow> nat \<Rightarrow> nat \<Rightarrow> nat \<Rightarrow> buffer \<Rightarrow> buffer" where
  "dither_pixel amount w h y x data =
     (let idx = (y * w + x) * 4 in
      if data ! (idx + 3) = 0 then data
      else
        (let oldR = data ! idx;
             oldG = data ! (idx + 1);
             oldB = data ! (idx + 2);
             gray = grayLevel oldR oldG oldB;
             data = data[idx := toUint8Clamp (of_int gray)];
             data = data[idx + 1 := toUint8Clamp (of_int gray)];
             data = data[idx + 2 := toUint8Clamp (of_int gray)];
             errR = (num oldR - of_int gray) * amount;
             errG = (num oldG - of_int gray) * amount;
             errB = (num oldB - of_int gray) * amount;
             data = (if x + 1 < w then addError data (idx + 4) errR errG errB (7 / 16)
                     else data)
         in if y + 1 < h then
              (let data = (if 0 < x
                           then addError data (idx - 4 + w * 4) errR errG errB (3 / 16)
                           else data);
                   data = addError data (idx + w * 4) errR errG errB (5 / 16)
               in if x + 1 < w then addError data (idx + 4 + w * 4) errR errG errB (1 / 16)
                  else data)
            else data))"

definition dither_row :: "real \<Rightarrow> nat \<Rightarrow> nat \<Rightarrow> nat \<Rightarrow> buffer \<Rightarrow> buffer" where
  "dither_row amount w h y data = fold (dither_pixel amount w h y) [0..<w] data"

definition dither_loops :: "real \<Rightarrow> nat \<Rightarrow> nat \<Rightarrow> buffer \<Rightarrow> buffer" where
  "dither_loops amount w h data = fold (dither_row amount w h) [0..<h] data"

text \<open>
  The function allocates a working copy, dithers the copy, copies it back into the
  array it was given and returns that array. Arrays are shared by reference, so the
  embedding has a store: a list of arrays, an array's address being its position.
  \<open>new Uint8ClampedArray(n)\<close> appends an array of \<open>n\<close> zeros.
\<close>

type_synonym addr = nat
type_synonym heap = "buffer list"

definition applyFloydSteinbergDithering_heap ::
    "generator \<Rightarrow> heap \<Rightarrow> addr \<Rightarrow> nat \<Rightarrow> nat \<Rightarrow> addr \<times> heap" where
  "applyFloydSteinbergDithering_heap this s pixels w h =
     (let n = length (s ! pixels);
          data = length s;
          s = s @ [replicate n 0];
          s = fold (\<lambda>i s. s[data := (s ! data)[i := s ! pixels ! i]]) [0..<n] s;
          amount = ditherAmount this;
          s = s[data := dither_loops amount w h (s ! data)];
          s = fold (\<lambda>i s. s[pixels := (s ! pixels)[i := s ! data ! i]]) [0..<n] s
      in (pixels, s))"

text \<open>The contents of the returned array, for a caller that owns the only reference.\<close>

definition applyFloydSteinbergDithering :: "generator \<Rightarrow> buffer \<Rightarrow> nat \<Rightarrow> nat \<Rightarrow> buffer" where
  "applyFloydSteinbergDithering this pixels w h =
     (case applyFloydSteinbergDithering_heap this [pixels] 0 w h of (a, s) \<Rightarrow> s ! a)"

subsection \<open>Sharpening\<close>

text \<open>
  The blur writes the interior pixels of a fresh array of zeros and reads only the
  array it was given. The source's \<open>ky\<close> and \<open>kx\<close> run from -1 to 1; here they run
  from 0 to 2 and the offset is subtracted where the index is computed (the interior
  has \<open>y\<close> and \<open>x\<close> at least 1).
\<close>

definition kernel :: "real list list" where
  "kernel = [[1, 2, 1], [2, 4, 2], [1, 2, 1]]"

definition kernelSum :: real where
  "kernelSum = 16"

definition blur_sum :: "buffer \<Rightarrow> nat \<Rightarrow> nat \<Rightarrow> nat \<Rightarrow> nat \<Rightarrow> real" where
  "blur_sum pixels w y x c =
     fold (\<lambda>ky sum.
        fold (\<lambda>kx sum.
           (let idx = ((y + ky - 1) * w + (x + kx - 1)) * 4 + c
            in sum + num (pixels ! idx) * kernel ! ky ! kx))
          [0..<3] sum)
       [0..<3] 0"

definition blur_pixel :: "buffer \<Rightarrow> nat \<Rightarrow> nat \<Rightarrow> nat \<Rightarrow> buffer \<Rightarrow> buffer" where
  "blur_pixel pixels w y x result =
     (let result =
            fold (\<lambda>c result.
               (let sum = blur_sum pixels w y x c;
                    idx = (y * w + x) * 4 + c
                in result[idx := toUint8Clamp (sum / kernelSum)]))
              [0..<3] result;
          alphaIdx = (y * w + x) * 4 + 3
      in result[alphaIdx := pixels ! alphaIdx])"

definition applyGaussianBlur :: "buffer \<Rightarrow> nat \<Rightarrow> nat \<Rightarrow> buffer" where
  "applyGaussianBlur pixels w h =
     (let result = replicate (length pixels) 0
      in fold (\<lambda>y result. fold (blur_pixel pixels w y) [1..<w - 1] result)
           [1..<h - 1] result)"

text \<open>
  The unsharp mask works on the pixel data of the canvas and puts the result back:
  the function below maps the canvas contents before to the contents after. The loop
  variable \<open>i\<close> takes the values 0, 4, 8, ... below the length.
\<close>

definition applyUnsharpMask :: "buffer \<Rightarrow> nat \<Rightarrow> nat \<Rightarrow> buffer" where
  "applyUnsharpMask pixels w h =
     (let original = pixels;
          blurred = applyGaussianBlur original w h;
          amount = 8 / 10
      in fold (\<lambda>i pixels.
            fold (\<lambda>j pixels.
               (let diff = num (original ! (i + j)) - num (blurred ! (i + j))
                in pixels[i + j :=
                     toUint8Clamp (max 0 (min 255 (num (original ! (i + j)) + diff * amount)))]))
              [0..<3] pixels)
           (map (\<lambda>k. 4 * k) [0..<(length pixels + 3) div 4]) pixels)"

subsection \<open>The conversion\<close>

text \<open>
  An image, as far as the conversion looks at it: its two dimensions and what the
  canvas holds after the image has been drawn onto it at a given size
  (\<open>drawImage\<close> followed by \<open>getImageData\<close>, both outside of the source).
\<close>

record image =
  image_width :: real
  image_height :: real
  drawImage :: "int \<Rightarrow> int \<Rightarrow> buffer"

text \<open>
  The result is the text, or for colour mode the element tree: one line element per
  row, holding one span per character with its text and colour.
\<close>

datatype span = Span (textContent: string) (color: "byte \<times> byte \<times> byte")

datatype ascii_art = Text string | Colored "span list list"

text \<open>
  Indexing a string beyond its end gives \<open>undefined\<close>. Appended to a string it reads
  \<open>undefined\<close>; assigned to \<open>textContent\<close> it leaves the element empty. A character
  set that comes from the constructor is never empty, and the index is clamped, so
  this case does not arise for a constructed generator.
\<close>

definition char_at :: "string \<Rightarrow> int \<Rightarrow> char option" where
  "char_at s i = (if 0 \<le> i \<and> nat i < length s then Some (s ! nat i) else None)"

definition append_char :: "string \<Rightarrow> char option \<Rightarrow> string" where
  "append_char s c = (case c of None \<Rightarrow> s @ ''undefined'' | Some ch \<Rightarrow> s @ [ch])"

definition text_of :: "char option \<Rightarrow> string" where
  "text_of c = (case c of None \<Rightarrow> [] | Some ch \<Rightarrow> [ch])"

definition charIndex_of :: "generator \<Rightarrow> string \<Rightarrow> real \<Rightarrow> int" where
  "charIndex_of this activeCharSet brightness =
     (let n = int (length activeCharSet);
          charIndex = (if invertBrightness this
                       then Math_floor (brightness / 256 * of_int n)
                       else Math_floor ((255 - brightness) / 256 * of_int n))
      in max 0 (min charIndex (n - 1)))"

definition convert_pixel ::
    "generator \<Rightarrow> buffer \<Rightarrow> string \<Rightarrow> nat \<Rightarrow> nat \<Rightarrow> string \<times> span list \<Rightarrow> string \<times> span list" where
  "convert_pixel this pixels activeCharSet y x st =
     (case st of (asciiArt, lineSpan) \<Rightarrow>
        (let idx = (y * nat (width this) + x) * 4;
             r = pixels ! idx;
             g = pixels ! (idx + 1);
             b = pixels ! (idx + 2);
             alpha = pixels ! (idx + 3)
         in if alpha = 0 then (asciiArt @ '' '', lineSpan)
            else
              (let brightness =
                     of_int (Math_round (299 / 1000 * num r + 587 / 1000 * num g
                                          + 114 / 1000 * num b));
                   brightness = applyContrastAndBrightness this brightness;
                   charIndex = charIndex_of this activeCharSet brightness;
                   char = char_at activeCharSet charIndex;
                   asciiArt = append_char asciiArt char
               in if colorMode this
                  then (asciiArt, lineSpan @ [Span (text_of char) (r, g, b)])
                  else (asciiArt, lineSpan))))"

definition convert_row ::
    "generator \<Rightarrow> buffer \<Rightarrow> string \<Rightarrow> nat \<Rightarrow> string \<times> span list list
       \<Rightarrow> string \<times> span list list" where
  "convert_row this pixels activeCharSet y st =
     (case st of (asciiArt, coloredAsciiArt) \<Rightarrow>
        (case fold (convert_pixel this pixels activeCharSet y) [0..<nat (width this)]
                (asciiArt, [])
         of (asciiArt, lineSpan) \<Rightarrow>
           (asciiArt @ [CHR 0x0A],
            if colorMode this then coloredAsciiArt @ [lineSpan] else coloredAsciiArt)))"

definition convertImageToASCII :: "generator \<Rightarrow> image \<Rightarrow> ascii_art" where
  "convertImageToASCII this img =
     (let ratio = image_height img / image_width img;
          height = Math_floor (of_int (width this) * ratio * (1 / 2));
          w = nat (width this);
          h = nat height;
          canvas = drawImage img (width this) height;
          canvas = (if applySharpening this then applyUnsharpMask canvas w h else canvas);
          pixels = canvas;
          pixels = (if applyDithering this
                    then applyFloydSteinbergDithering this pixels w h else pixels);
          activeCharSet = (if useDetailedCharSet this then detailedCharSet this
                           else charSet this)
      in case fold (convert_row this pixels activeCharSet) [0..<h] ([], [])
         of (asciiArt, coloredAsciiArt) \<Rightarrow>
           if colorMode this then Colored coloredAsciiArt else Text asciiArt)"

text \<open>The options object of a call without arguments: \<open>constructor(options = {})\<close>.\<close>

definition empty_options :: options where
  "empty_options =
     \<lparr> opt_charSet = None, opt_width = None, opt_invertBrightness = None,
       opt_colorMode = None, opt_contrastFactor = None, opt_brightnessFactor = None,
       opt_useDetailedCharSet = None, opt_applyDithering = None,
       opt_applySharpening = None, opt_ditherAmount = None \<rparr>"

subsection \<open>A whole call\<close>

text \<open>
  A caller builds a generator and converts an image with it, as the page
  \<open>aciiConverter.html\<close> does. Neither the constructor nor the conversion has a
  \<open>throw\<close> or any check of the configuration, so the call has one way to end, the
  normal return. The error names are those of the specification.
\<close>

datatype error = ConfigurationError | DimensionMismatch


text \<open>
  A square image whose canvas holds the given pixel data: drawn at width \<open>n\<close> it has
  \<open>n div 2\<close> rows.
\<close>

definition canvas_image :: "buffer \<Rightarrow> image" where
  "canvas_image pixels = \<lparr> image_width = 4, image_height = 4, drawImage = (\<lambda>w h. pixels) \<rparr>"

subsection \<open>The character mapping as specified\<close>



section \<open>Properties\<close>

subsection \<open>Typed array stores\<close>

lemma unat_byte_less: "unat (b :: byte) < 256"
  using unsigned_less [of b, where ?'a = nat] by simp

lemma toUint8Clamp_real: "n \<le> 255 \<Longrightarrow> toUint8Clamp (real n) = word_of_nat n"
proof -
  assume le: "n \<le> 255"
  consider "n = 0" | "n = 255" | "0 < n" "n < 255"
    using le by linarith
  then show ?thesis
  proof cases
    case 3
    then have "\<not> real n \<le> 0" "\<not> 255 \<le> real n" by simp_all
    moreover have "\<lfloor>real n\<rfloor> = int n" by simp
    ultimately show ?thesis by (simp add: toUint8Clamp_def)
  qed (simp_all add: toUint8Clamp_def)
qed

lemma toUint8Clamp_num: "toUint8Clamp (num b) = b"
proof -
  have "unat b \<le> 255" using unat_byte_less [of b] by simp
  then have "toUint8Clamp (real (unat b)) = word_of_nat (unat b)"
    by (rule toUint8Clamp_real)
  then show ?thesis by (simp add: num_def)
qed

lemma clamp_num: "max 0 (min 255 (num b)) = num b"
proof -
  have "real (unat b) \<le> 255" using unat_byte_less [of b] by linarith
  moreover have "0 \<le> real (unat b)" by (rule of_nat_0_le_iff)
  ultimately show ?thesis unfolding num_def by linarith
qed

lemma addError_zero: "addError data idx 0 0 0 factor = data"
  by (simp add: addError_def clamp_num toUint8Clamp_num)

lemma length_addError [simp]: "length (addError data idx eR eG eB f) = length data"
  by (simp add: addError_def Let_def)

lemma addError_nth_other:
  "i \<noteq> idx \<Longrightarrow> i \<noteq> idx + 1 \<Longrightarrow> i \<noteq> idx + 2 \<Longrightarrow> addError data idx eR eG eB f ! i = data ! i"
  by (simp add: addError_def Let_def)

lemma length_dither_pixel [simp]: "length (dither_pixel a w h y x data) = length data"
  by (simp add: dither_pixel_def Let_def)

lemma fold_preserves:
  assumes "P s" and "\<And>x t. x \<in> set xs \<Longrightarrow> P t \<Longrightarrow> P (f x t)"
  shows "P (fold f xs s)"
  using assms by (induction xs arbitrary: s) simp_all

lemma length_dither_row [simp]: "length (dither_row a w h y data) = length data"
  unfolding dither_row_def by (rule fold_preserves [where P = "\<lambda>d. length d = length data"]) simp_all

lemma length_dither_loops [simp]: "length (dither_loops a w h data) = length data"
  unfolding dither_loops_def by (rule fold_preserves [where P = "\<lambda>d. length d = length data"]) simp_all

subsection \<open>The copy loops and the store\<close>

lemma fold_id: "(\<And>x. x \<in> set xs \<Longrightarrow> f x s = s) \<Longrightarrow> fold f xs s = s"
  by (induction xs) simp_all

lemma copy_loop_upto:
  assumes "a < length s" "b < length s" "a \<noteq> b" "length (s ! a) = length (s ! b)"
  shows "k \<le> length (s ! b) \<Longrightarrow>
    fold (\<lambda>i s. s[a := (s ! a)[i := s ! b ! i]]) [0..<k] s
      = s[a := take k (s ! b) @ drop k (s ! a)]"
proof (induction k)
  case 0
  show ?case by simp
next
  case (Suc k)
  let ?A = "s ! a" and ?B = "s ! b"
  let ?T = "take k ?B @ drop k ?A"
  from Suc.prems have k: "k < length ?B" "k < length ?A" using assms(4) by simp_all
  have upd: "?T[k := ?B ! k] = take (Suc k) ?B @ drop (Suc k) ?A"
  proof -
    have len: "length (take k ?B) = k" using k by simp
    have d: "drop k ?A = ?A ! k # drop (Suc k) ?A"
      using k by (simp add: Cons_nth_drop_Suc)
    have "?T[k := ?B ! k] = take k ?B @ (drop k ?A)[0 := ?B ! k]"
      using len by (simp add: list_update_append)
    also have "\<dots> = take k ?B @ (?B ! k # drop (Suc k) ?A)"
      by (simp add: d)
    also have "\<dots> = take (Suc k) ?B @ drop (Suc k) ?A"
      using k by (simp add: take_Suc_conv_app_nth)
    finally show ?thesis .
  qed
  have "fold (\<lambda>i s. s[a := (s ! a)[i := s ! b ! i]]) [0..<Suc k] s
          = (s[a := ?T])[a := ((s[a := ?T]) ! a)[k := (s[a := ?T]) ! b ! k]]"
    using Suc by simp
  also have "\<dots> = s[a := ?T[k := ?B ! k]]"
    using assms(1-3) by simp
  finally show ?case by (simp only: upd)
qed

lemma copy_loop:
  assumes "a < length s" "b < length s" "a \<noteq> b" "length (s ! a) = length (s ! b)"
  shows "fold (\<lambda>i s. s[a := (s ! a)[i := s ! b ! i]]) [0..<length (s ! b)] s = s[a := s ! b]"
  using copy_loop_upto [OF assms, of "length (s ! b)"] assms(4) by simp

lemma dither_heap_result:
  assumes "pixels < length s"
  shows "applyFloydSteinbergDithering_heap this s pixels w h =
    (pixels, (s @ [dither_loops (ditherAmount this) w h (s ! pixels)])
                [pixels := dither_loops (ditherAmount this) w h (s ! pixels)])"
proof -
  let ?n = "length (s ! pixels)"
  let ?d = "length s"
  let ?D = "dither_loops (ditherAmount this) w h (s ! pixels)"
  let ?s1 = "s @ [replicate ?n 0]"
  have ne: "?d \<noteq> pixels" using assms by simp
  have s1p: "?s1 ! pixels = s ! pixels" using assms by (simp add: nth_append)
  have s1d: "?s1 ! ?d = replicate ?n 0" by simp
  have c1: "fold (\<lambda>i s. s[?d := (s ! ?d)[i := s ! pixels ! i]]) [0..<?n] ?s1
              = ?s1[?d := s ! pixels]"
    using copy_loop [of ?d ?s1 pixels] assms ne s1p s1d by simp
  let ?s3 = "s @ [?D]"
  have s3: "(?s1[?d := s ! pixels])[?d := ?D] = ?s3" by simp
  have s3p: "?s3 ! pixels = s ! pixels" using assms by (simp add: nth_append)
  have s3d: "?s3 ! ?d = ?D" by simp
  have "fold (\<lambda>i s. s[pixels := (s ! pixels)[i := s ! ?d ! i]]) [0..<length (?s3 ! ?d)] ?s3
              = ?s3[pixels := ?s3 ! ?d]"
    using assms ne s3p by (intro copy_loop) simp_all
  then have c2: "fold (\<lambda>i s. s[pixels := (s ! pixels)[i := s ! ?d ! i]]) [0..<?n] ?s3
              = ?s3[pixels := ?D]"
    by simp
  show ?thesis
    unfolding applyFloydSteinbergDithering_heap_def Let_def
    by (simp only: c1 s1d s3 c2 list_update_overwrite nth_list_update_eq length_append
        length_list_update list.size) (simp add: c1 s3 c2)
qed

lemma dither_contents:
  "applyFloydSteinbergDithering this pixels w h = dither_loops (ditherAmount this) w h pixels"
  by (simp add: applyFloydSteinbergDithering_def dither_heap_result)

subsection \<open>One step of the dithering loops\<close>

lemma pixel_in_range:
  fixes x y w h :: nat
  assumes "x < w" "y < h"
  shows "(y * w + x) * 4 + 3 < 4 * w * h"
proof -
  have "y * w + x < Suc y * w" using assms(1) by simp
  also have "\<dots> \<le> h * w" using assms(2) by (intro mult_le_mono1) simp
  finally have "y * w + x < h * w" .
  moreover have "n * 4 + 3 < 4 * m" if "n < m" for n m :: nat using that by arith
  ultimately have "(y * w + x) * 4 + 3 < 4 * (h * w)" by blast
  also have "4 * (h * w) = 4 * w * h" by simp
  finally show ?thesis .
qed

lemma grayLevel_fixed:
  assumes "unat v mod 32 = 0"
  shows "grayLevel v v v = int (unat v)"
proof -
  from assms obtain k where k: "unat v = 32 * k" by (auto simp: mod_eq_0_iff_dvd)
  have "(num v + num v + num v) / 3 / 32 = real k" by (simp add: num_def k)
  moreover have "\<lfloor>real k + 1 / 2\<rfloor> = int k" by linarith
  ultimately show ?thesis by (simp add: grayLevel_def Math_round_def k)
qed


lemma dither_pixel_quantized:
  assumes "data ! ((y * w + x) * 4) = v" "data ! ((y * w + x) * 4 + 1) = v"
    "data ! ((y * w + x) * 4 + 2) = v" "unat v mod 32 = 0"
  shows "dither_pixel a w h y x data = data"
proof -
  have g: "grayLevel v v v = int (unat v)" by (rule grayLevel_fixed [OF assms(4)])
  have r: "real_of_int (int (unat v)) = num v" by (simp add: num_def)
  have upd: "data[(y * w + x) * 4 := v] = data" "data[(y * w + x) * 4 + 1 := v] = data"
    "data[(y * w + x) * 4 + 2 := v] = data"
    using assms(1-3) by (metis list_update_id)+
  show ?thesis
    unfolding dither_pixel_def Let_def assms(1-3) g r toUint8Clamp_num upd
    by (simp add: addError_zero)
qed

lemma dither_loops_uniform:
  assumes len: "length data = 4 * w * h"
    and uni: "\<And>i. i < length data \<Longrightarrow> i mod 4 \<noteq> 3 \<Longrightarrow> data ! i = v"
    and v: "unat v mod 32 = 0"
  shows "dither_loops a w h data = data"
  unfolding dither_loops_def
proof (rule fold_id)
  fix y assume "y \<in> set [0..<h]"
  then have y: "y < h" by simp
  show "dither_row a w h y data = data"
    unfolding dither_row_def
  proof (rule fold_id)
    fix x assume "x \<in> set [0..<w]"
    then have x: "x < w" by simp
    let ?idx = "(y * w + x) * 4"
    have r: "?idx + 3 < length data" using pixel_in_range [OF x y] len by simp
    have m: "?idx mod 4 \<noteq> 3" "(?idx + 1) mod 4 \<noteq> 3" "(?idx + 2) mod 4 \<noteq> 3"
      by presburger+
    have "data ! ?idx = v" "data ! (?idx + 1) = v" "data ! (?idx + 2) = v"
      using r m by (intro uni; simp)+
    then show "dither_pixel a w h y x data = data"
      using v by (rule dither_pixel_quantized)
  qed
qed




lemma addError_nth_below:
  "i < idx \<Longrightarrow> addError data idx eR eG eB f ! i = data ! i"
  by (rule addError_nth_other) simp_all

lemma grayLevel_levels: "grayLevel r g b \<in> {0, 32, 64, 96, 128, 160, 192, 224, 256}"
proof -
  define s where "s = num r + num g + num b"
  define m where "m = \<lfloor>s / 3 / 32 + 1 / 2\<rfloor>"
  have "0 \<le> num c \<and> num c \<le> 255" for c
    using clamp_num [of c] by linarith
  then have "0 \<le> num r" "0 \<le> num g" "0 \<le> num b"
    "num r \<le> 255" "num g \<le> 255" "num b \<le> 255" by blast+
  then have s: "0 \<le> s" "s \<le> 765" unfolding s_def by linarith+
  have "0 \<le> s / 3 / 32 + 1 / 2" using s(1) by simp
  then have lo: "0 \<le> m" unfolding m_def by simp
  have "s / 3 / 32 + 1 / 2 < 9" using s(2) by simp
  then have hi: "m < 9" unfolding m_def by (simp only: floor_less_iff of_int_numeral)
  have "m \<in> {0, 1, 2, 3, 4, 5, 6, 7, 8}" using lo hi by auto
  moreover have "grayLevel r g b = m * 32"
    by (simp only: grayLevel_def Math_round_def m_def s_def)
  ultimately show ?thesis by auto
qed

lemma stored_gray:
  "gray \<in> {0, 32, 64, 96, 128, 160, 192, 224, 256} \<Longrightarrow>
   unat (toUint8Clamp (of_int gray)) = nat (min 255 gray)"
  by (auto simp: toUint8Clamp_def)

lemma dither_pixel_channels:
  fixes x y w h c :: nat
  assumes x: "x < w" and y: "y < h" and len: "length data = 4 * w * h"
    and opaque: "data ! ((y * w + x) * 4 + 3) \<noteq> 0" and c: "c < 3"
  shows "dither_pixel a w h y x data ! ((y * w + x) * 4 + c) =
    toUint8Clamp (of_int (grayLevel (data ! ((y * w + x) * 4))
        (data ! ((y * w + x) * 4 + 1)) (data ! ((y * w + x) * 4 + 2))))"
proof -
  define idx where "idx = (y * w + x) * 4"
  define G where "G = toUint8Clamp (of_int (grayLevel (data ! idx) (data ! (idx + 1))
    (data ! (idx + 2))))"
  define d1 where "d1 = data[idx := G, idx + 1 := G, idx + 2 := G]"
  have r: "idx + 3 < length data" using pixel_in_range [OF x y] len by (simp add: idx_def)
  have d1c: "d1 ! (idx + c) = G"
  proof -
    from c consider "c = 0" | "c = 1" | "c = 2" by linarith
    then show ?thesis using r by cases (simp_all add: d1_def)
  qed
  have w1: "idx + c < idx + 4" "idx + c < idx + w * 4" "idx + c < idx + 4 + w * 4"
    using c x by simp_all
  have sw: "idx + c < idx - 4 + w * 4" if "0 < x"
  proof -
    have "4 \<le> idx" using that by (simp add: idx_def)
    moreover have "2 \<le> w" using that x by simp
    ultimately show ?thesis using c by simp
  qed
  have keep: "addError d (idx + 4) eR eG eB f ! (idx + c) = d ! (idx + c)"
    "addError d (idx + w * 4) eR eG eB f ! (idx + c) = d ! (idx + c)"
    "addError d (idx + 4 + w * 4) eR eG eB f ! (idx + c) = d ! (idx + c)"
    "0 < x \<Longrightarrow> addError d (idx - 4 + w * 4) eR eG eB f ! (idx + c) = d ! (idx + c)"
    for d eR eG eB f
    using w1 sw by (simp_all add: addError_nth_below)
  have "dither_pixel a w h y x data ! (idx + c) = d1 ! (idx + c)"
    using opaque unfolding dither_pixel_def Let_def idx_def [symmetric] d1_def [symmetric] G_def [symmetric]
    by (simp add: keep)
  then show ?thesis using d1c by (simp add: G_def idx_def)
qed

subsection \<open>The midpoint under contrast\<close>

text \<open>
  C7. With brightness 0, the contrast adjustment leaves the midpoint luminance 128
  where it is, whatever the contrast factor: the factor multiplies the distance to 128,
  which is 0.
\<close>

theorem midpoint_fixed:
  "applyContrastAndBrightness (g\<lparr>contrastFactor := c, brightnessFactor := 0\<rparr>) 128 = 128"
  by (simp add: applyContrastAndBrightness_def)

subsection \<open>Falsy options\<close>

text \<open>
  C9. The constructor replaces every falsy option value by the default: the empty
  character set by the ten-character one, width 0 by 100, contrast 0 by 1, dither
  amount 0 by 0.5 (and \<open>false\<close> and brightness 0, whose defaults they are, by
  themselves). So no options object gives a generator with contrast 0 or with
  dither amount 0.
\<close>

theorem constructor_falsy_defaults:
  "charSet (constructor (opts\<lparr>opt_charSet := Some []\<rparr>)) = ''@%#*+=-:. ''
   \<and> width (constructor (opts\<lparr>opt_width := Some 0\<rparr>)) = 100
   \<and> contrastFactor (constructor (opts\<lparr>opt_contrastFactor := Some 0\<rparr>)) = 1
   \<and> ditherAmount (constructor (opts\<lparr>opt_ditherAmount := Some 0\<rparr>)) = 1 / 2
   \<and> brightnessFactor (constructor (opts\<lparr>opt_brightnessFactor := Some 0\<rparr>)) = 0
   \<and> invertBrightness (constructor (opts\<lparr>opt_invertBrightness := Some False\<rparr>)) = False
   \<and> colorMode (constructor (opts\<lparr>opt_colorMode := Some False\<rparr>)) = False
   \<and> useDetailedCharSet (constructor (opts\<lparr>opt_useDetailedCharSet := Some False\<rparr>)) = False
   \<and> applyDithering (constructor (opts\<lparr>opt_applyDithering := Some False\<rparr>)) = False
   \<and> applySharpening (constructor (opts\<lparr>opt_applySharpening := Some False\<rparr>)) = False
   \<and> contrastFactor (constructor opts) \<noteq> 0
   \<and> ditherAmount (constructor opts) \<noteq> 0"
  by (simp add: constructor_def or_string_def or_int_def or_real_def or_bool_def
      default_charSet_def split: option.split)

subsection \<open>Dithering works on the caller's array\<close>

text \<open>
  C10. The dithering writes its result into the array it was given and returns that
  very array: the returned reference is the argument, and after the call the array
  holds the dithered data, whatever it held before. The working copy stays in the
  store as a second array with the same contents.
\<close>

theorem dither_in_place:
  assumes "pixels < length s"
  shows "applyFloydSteinbergDithering_heap this s pixels w h =
    (pixels, (s @ [applyFloydSteinbergDithering this (s ! pixels) w h])
                [pixels := applyFloydSteinbergDithering this (s ! pixels) w h])"
  using assms by (simp add: dither_heap_result dither_contents)

text \<open>
  At a two-pixel row the caller's array held 100 and 50 before the call and holds 96
  and 51 after it.
\<close>

theorem dither_in_place_witness:
  "(0::nat) < length [[100, 100, 100, 255, 50, 50, 50, 0 :: byte]] \<and>
   applyFloydSteinbergDithering_heap (constructor empty_options)
     [[100, 100, 100, 255, 50, 50, 50, 0]] 0 2 1 =
   (0, [[96, 96, 96, 255, 51, 51, 51, 0], [96, 96, 96, 255, 51, 51, 51, 0]])"
proof -
  have e: "applyFloydSteinbergDithering (constructor empty_options)
             [100, 100, 100, 255, 50, 50, 50, 0] 2 1 = [96, 96, 96, 255, 51, 51, 51, 0]"
    by code_simp
  have h: "(0::nat) < length [[100, 100, 100, 255, 50, 50, 50, 0 :: byte]]" by simp
  from dither_in_place [OF h, of "constructor empty_options" 2 1] e h show ?thesis by simp
qed

subsection \<open>Dithering a quantized gray image\<close>

text \<open>
  C8. On a fully opaque buffer whose red, green and blue samples all equal one
  multiple of 32, dithering a second time gives what dithering once gives, for every
  dither amount: each pixel is its own gray level, the error is 0, and adding an error
  of 0 to a neighbour stores the byte it already holds.
\<close>

theorem dither_idempotent_uniform:
  assumes "length pixels = 4 * w * h"
    and "\<forall>i<length pixels. (i mod 4 = 3 \<longrightarrow> pixels ! i \<noteq> 0) \<and> (i mod 4 \<noteq> 3 \<longrightarrow> pixels ! i = v)"
    and "unat v mod 32 = 0"
  shows "applyFloydSteinbergDithering this (applyFloydSteinbergDithering this pixels w h) w h =
         applyFloydSteinbergDithering this pixels w h"
proof -
  have "dither_loops (ditherAmount this) w h pixels = pixels"
    using assms by (intro dither_loops_uniform [where v = v]) simp_all
  then show ?thesis by (simp add: dither_contents)
qed

theorem dither_idempotent_uniform_witness:
  "length [64, 64, 64, 255, 64, 64, 64, 128 :: byte] = 4 * 2 * 1 \<and>
   unat (64 :: byte) mod 32 = 0 \<and>
   applyFloydSteinbergDithering (constructor empty_options)
     (applyFloydSteinbergDithering (constructor empty_options)
        [64, 64, 64, 255, 64, 64, 64, 128] 2 1) 2 1 =
   applyFloydSteinbergDithering (constructor empty_options) [64, 64, 64, 255, 64, 64, 64, 128] 2 1"
proof -
  have len: "length [64, 64, 64, 255, 64, 64, 64, 128 :: byte] = 4 * 2 * 1" by simp
  have uni: "\<forall>i<length [64, 64, 64, 255, 64, 64, 64, 128 :: byte].
      (i mod 4 = 3 \<longrightarrow> [64, 64, 64, 255, 64, 64, 64, 128 :: byte] ! i \<noteq> 0) \<and>
      (i mod 4 \<noteq> 3 \<longrightarrow> [64, 64, 64, 255, 64, 64, 64, 128 :: byte] ! i = 64)"
    by (simp add: All_less_Suc mod_Suc)
  have v: "unat (64 :: byte) mod 32 = 0" by simp
  from dither_idempotent_uniform [OF len uni v] len v show ?thesis by blast
qed

subsection \<open>What a neighbour receives\<close>




subsection \<open>Transparent pixels under dithering\<close>




subsection \<open>The gray levels\<close>

text \<open>
  The gray level takes nine values, not eight: an average of 240 or more rounds up
  to 256, which the array stores as 255.
\<close>

theorem nine_gray_levels:
  "grayLevel 0 0 0 = 0 \<and> grayLevel 32 32 32 = 32 \<and> grayLevel 64 64 64 = 64
   \<and> grayLevel 96 96 96 = 96 \<and> grayLevel 128 128 128 = 128 \<and> grayLevel 160 160 160 = 160
   \<and> grayLevel 192 192 192 = 192 \<and> grayLevel 224 224 224 = 224
   \<and> grayLevel 250 250 250 = 256
   \<and> applyFloydSteinbergDithering (constructor empty_options) [250, 250, 250, 255] 1 1
       = [255, 255, 255, 255]"
  by code_simp

text \<open>
  C4, as the code has it. The visit of an opaque pixel stores the same byte in its
  red, green and blue samples: the gray level \<open>round((r + g + b) / 3 / 32) * 32\<close> of
  the values the pixel holds at that moment, cut off at 255. The gray level is one
  of the nine values 0, 32, ..., 224, 256.
\<close>

theorem dither_pixel_gray:
  fixes x y w h :: nat
  assumes "x < w" and "y < h" and "length data = 4 * w * h"
    and "data ! ((y * w + x) * 4 + 3) \<noteq> 0"
  shows "let idx = (y * w + x) * 4;
             gray = grayLevel (data ! idx) (data ! (idx + 1)) (data ! (idx + 2));
             data' = dither_pixel a w h y x data
         in data' ! idx = toUint8Clamp (of_int gray)
          \<and> data' ! (idx + 1) = toUint8Clamp (of_int gray)
          \<and> data' ! (idx + 2) = toUint8Clamp (of_int gray)
          \<and> unat (toUint8Clamp (of_int gray)) = nat (min 255 gray)
          \<and> gray \<in> {0, 32, 64, 96, 128, 160, 192, 224, 256}"
proof -
  define idx where "idx = (y * w + x) * 4"
  define gray where "gray = grayLevel (data ! idx) (data ! (idx + 1)) (data ! (idx + 2))"
  note ch = dither_pixel_channels [OF assms, where a = a, folded idx_def gray_def]
  have c0: "dither_pixel a w h y x data ! idx = toUint8Clamp (of_int gray)"
    using ch [of 0] by simp
  have c1: "dither_pixel a w h y x data ! (idx + 1) = toUint8Clamp (of_int gray)"
    using ch [of 1] by simp
  have c2: "dither_pixel a w h y x data ! (idx + 2) = toUint8Clamp (of_int gray)"
    using ch [of 2] by simp
  have lv: "gray \<in> {0, 32, 64, 96, 128, 160, 192, 224, 256}"
    unfolding gray_def by (rule grayLevel_levels)
  have st: "unat (toUint8Clamp (of_int gray)) = nat (min 255 gray)"
    using lv by (rule stored_gray)
  show ?thesis
    unfolding Let_def idx_def [symmetric] gray_def [symmetric]
    using c0 c1 c2 lv st by (intro conjI)
qed

theorem dither_pixel_gray_witness:
  "(0::nat) < 1 \<and> (0::nat) < 1 \<and> length [250, 200, 210, 255 :: byte] = 4 * 1 * 1
   \<and> [250, 200, 210, 255 :: byte] ! ((0 * 1 + 0) * 4 + 3) \<noteq> 0
   \<and> grayLevel 250 200 210 = 224
   \<and> dither_pixel (1 / 2) 1 1 0 0 [250, 200, 210, 255] = [224, 224, 224, 255]"
proof -
  have e: "grayLevel 250 200 210 = 224"
    "dither_pixel (1 / 2) 1 1 0 0 [250, 200, 210, 255] = [224, 224, 224, 255]"
    by code_simp+
  have h: "(0::nat) < 1" "length [250, 200, 210, 255 :: byte] = 4 * 1 * 1"
    "[250, 200, 210, 255 :: byte] ! ((0 * 1 + 0) * 4 + 3) \<noteq> 0"
    by simp_all
  from dither_pixel_gray [OF h(1) h(1) h(2) h(3), of "1 / 2"] e h show ?thesis by simp
qed

subsection \<open>The character for a luminance\<close>



subsection \<open>The blur and the border\<close>

text \<open>
  C5. The blur copies the alpha sample inside the interior loop only. The border
  pixels of its result keep the zeros the array was created with, alpha included:
  a single opaque pixel comes back transparent, and of a 3 by 3 opaque image only
  the centre keeps its alpha.
\<close>

theorem blur_clears_border_alpha:
  "applyGaussianBlur [10, 20, 30, 255] 1 1 = [0, 0, 0, 0]
   \<and> applyGaussianBlur
        [10, 20, 30, 255, 10, 20, 30, 255, 10, 20, 30, 255,
         10, 20, 30, 255, 10, 20, 30, 255, 10, 20, 30, 255,
         10, 20, 30, 255, 10, 20, 30, 255, 10, 20, 30, 255] 3 3
       = [0, 0, 0, 0, 0, 0, 0, 0, 0, 0, 0, 0,
          0, 0, 0, 0, 10, 20, 30, 255, 0, 0, 0, 0,
          0, 0, 0, 0, 0, 0, 0, 0, 0, 0, 0, 0]"
  by code_simp

subsection \<open>Text and colour mode\<close>

text \<open>
  C1. For a transparent pixel the text gets a space, but the \<open>continue\<close> comes
  before the span is made: in colour mode the line has no element for that pixel and
  the characters after it move one place to the left. A row of a transparent and a
  white pixel is space, \<open>@\<close> as text and the single span \<open>@\<close> in colour mode.
\<close>

theorem transparent_pixel_without_span:
  "convertImageToASCII (constructor (empty_options\<lparr>opt_width := Some 2\<rparr>))
     (canvas_image [0, 0, 0, 0, 255, 255, 255, 255]) = Text [CHR '' '', CHR ''@'', CHR 0x0A]
   \<and> convertImageToASCII
       (constructor (empty_options\<lparr>opt_width := Some 2, opt_colorMode := Some True\<rparr>))
       (canvas_image [0, 0, 0, 0, 255, 255, 255, 255])
     = Colored [[Span ''@'' (255, 255, 255)]]"
  by code_simp

subsection \<open>Configurations are not checked\<close>










end
